theory Spec2Isabelle
  imports Complex_Main "HOL-Library.Multiset" "HOL-Library.Product_Lexorder" "HOL-Library.AList"
begin

section \<open>Values, events and errors\<close>

text \<open>
  The simulation framework is written in TypeScript. A JavaScript number is modelled by a
  rational: arithmetic is exact (as the source's doubles are on the integers a simulation
  clock takes), and \<open>NaN\<close> and the infinities are not arguments of any operation here.
  A value that may be \<open>undefined\<close> or \<open>null\<close> is an \<open>option\<close>.
\<close>

datatype jsval = Undefined | Null | Bool bool | Num rat | Str string | Ref nat

text \<open>
  \<open>class Event\<close> of \<open>events.ts\<close>, as the queues and the entities read it:
  \<open>name\<close> (a string; \<open>None\<close> when the object has no name, as the plain objects the tests
  pass), \<open>guid\<close>, \<open>time\<close> (a number or \<open>undefined\<close>) and the further properties.
\<close>

record event =
  name :: "string option"
  guid :: string
  time :: "rat option"
  props :: "(string \<times> jsval) list"

text \<open>
  \<open>util.assert\<close> throws \<open>new Error(message)\<close>; the two messages that interpolate a
  number are kept as constructors. \<open>RegExp(p)\<close> throws a \<open>SyntaxError\<close> on a pattern that
  does not compile, and a method call on \<open>undefined\<close> throws a \<open>TypeError\<close>.
\<close>

datatype message = Msg string | TimeNotInteger rat | TimeBeforeCurrent rat rat

datatype error = Error message | SyntaxError string | TypeError

text \<open>
  A method either returns a value or throws; both leave the receiver in some state, which
  is returned with the result.
\<close>

datatype ('s, 'a) outcome = Throws error 's | Returns 'a 's

text \<open>\<open>assert(condition, message)\<close> of \<open>util.ts\<close>, on the truthiness of its first argument.\<close>

definition truthy_string :: "string option \<Rightarrow> bool" where
  "truthy_string s = (case s of None \<Rightarrow> False | Some v \<Rightarrow> v \<noteq> [])"

definition truthy_number :: "rat option \<Rightarrow> bool" where
  "truthy_number t = (case t of None \<Rightarrow> False | Some v \<Rightarrow> v \<noteq> 0)"

text \<open>\<open>String(event.name)\<close>: what a regular expression is tested against, and the
  property key an object is indexed with.\<close>

definition to_string :: "string option \<Rightarrow> string" where
  "to_string s = (case s of None \<Rightarrow> ''undefined'' | Some v \<Rightarrow> v)"

text \<open>
  \<open>RegExp(p).test(n)\<close> is the JavaScript engine's, not this repository's: it is a parameter
  \<open>rx\<close> of the queues, \<open>rx p n = None\<close> when \<open>RegExp(p)\<close> throws. What is used of it is that
  the empty pattern matches every string.
\<close>

type_synonym regexp = "string \<Rightarrow> string \<Rightarrow> bool option"


definition compiles :: "regexp \<Rightarrow> string \<Rightarrow> bool" where
  "compiles rx p = (\<forall>n. rx p n \<noteq> None)"

text \<open>
  An instance for concrete runs: on a pattern of ordinary characters \<open>RegExp(p).test(n)\<close>
  is the search of \<open>p\<close> as a substring of \<open>n\<close>. This instance refuses every pattern with a
  metacharacter.
\<close>

definition metachars :: "char list" where
  "metachars = [CHR 0x5C, CHR ''^'', CHR ''$'', CHR ''.'', CHR ''|'', CHR ''?'', CHR ''*'',
     CHR ''+'', CHR ''('', CHR '')'', CHR ''['', CHR '']'', CHR ''{'', CHR ''}'']"

fun contains :: "string \<Rightarrow> string \<Rightarrow> bool" where
  "contains p [] = (p = [])"
| "contains p (c # cs) = (take (length p) (c # cs) = p \<or> contains p cs)"

definition literal_regexp :: regexp where
  "literal_regexp p n =
     (if list_ex (\<lambda>c. c \<in> set metachars) p then None else Some (contains p n))"

section \<open>PriorityQueue\<close>

record priority_queue =
  priorityList :: "string list"
  eventQueues :: "string \<rightharpoonup> event list"
  pq_length :: nat

text \<open>
  \<open>"*" in priorityList\<close> asks whether the array has a property of that name. The own
  properties of an array are its indices, written in decimal, and \<open>length\<close>; the inherited
  ones are named by identifiers. The elements of the array are not looked at.
\<close>

definition digit :: "nat \<Rightarrow> char" where
  "digit d = ''0123456789'' ! (d mod 10)"

fun decimal :: "nat \<Rightarrow> string" where
  "decimal n = (if n < 10 then [digit n] else decimal (n div 10) @ [digit n])"

declare decimal.simps [simp del]

definition star_in :: "string list \<Rightarrow> bool" where
  "star_in list =
     (''*'' \<in> set (map decimal [0..<length list]) \<or> ''*'' = ''length'')"

definition PriorityQueue_setPriorities :: "priority_queue \<Rightarrow> string list \<Rightarrow> priority_queue" where
  "PriorityQueue_setPriorities q list =
     (let pl = (if \<not> star_in list then list @ [''''] else list)
      in q\<lparr>priorityList := pl,
           eventQueues := foldl (\<lambda>m eventName. m(eventName \<mapsto> [])) Map.empty pl\<rparr>)"

definition PriorityQueue_constructor :: "string list \<Rightarrow> priority_queue" where
  "PriorityQueue_constructor list =
     PriorityQueue_setPriorities
       \<lparr>priorityList = [], eventQueues = Map.empty, pq_length = 0\<rparr> list"

text \<open>\<open>this._priorityList.find(value => RegExp(value).test(event.name))\<close>: the first pattern
  that matches, \<open>undefined\<close> when none does; a pattern that does not compile throws when
  the scan reaches it.\<close>

fun find_pattern :: "regexp \<Rightarrow> string list \<Rightarrow> string \<Rightarrow> error + string option" where
  "find_pattern rx [] n = Inr None"
| "find_pattern rx (v # vs) n =
     (case rx v n of
        None \<Rightarrow> Inl (SyntaxError v)
      | Some True \<Rightarrow> Inr (Some v)
      | Some False \<Rightarrow> find_pattern rx vs n)"

definition PriorityQueue_add ::
  "regexp \<Rightarrow> priority_queue \<Rightarrow> event \<Rightarrow> (priority_queue, unit) outcome" where
  "PriorityQueue_add rx q ev =
     (case find_pattern rx (priorityList q) (to_string (name ev)) of
        Inl err \<Rightarrow> Throws err q
      | Inr queueName \<Rightarrow>
          (case eventQueues q (to_string queueName) of
             None \<Rightarrow> Throws TypeError q
           | Some queue \<Rightarrow>
               Returns () (q\<lparr>eventQueues := (eventQueues q)(to_string queueName \<mapsto> queue @ [ev]),
                              pq_length := pq_length q + 1\<rparr>)))"

text \<open>The \<open>for\<close> loop of \<open>next\<close>: the head of the first bucket that is not empty.\<close>

fun next_scan ::
  "string list \<Rightarrow> priority_queue \<Rightarrow> (priority_queue, event option) outcome" where
  "next_scan [] q = Returns None q"
| "next_scan (queueName # rest) q =
     (case eventQueues q queueName of
        None \<Rightarrow> Throws TypeError q
      | Some [] \<Rightarrow> next_scan rest q
      | Some (ev # evs) \<Rightarrow>
          Returns (Some ev) (q\<lparr>eventQueues := (eventQueues q)(queueName \<mapsto> evs),
                                pq_length := pq_length q - 1\<rparr>))"

definition PriorityQueue_next :: "priority_queue \<Rightarrow> (priority_queue, event option) outcome" where
  "PriorityQueue_next q =
     (if pq_length q = 0 then Returns None q else next_scan (priorityList q) q)"

definition PriorityQueue_isEmpty :: "priority_queue \<Rightarrow> bool" where
  "PriorityQueue_isEmpty q = (pq_length q = 0)"

subsection \<open>StrictPriorityQueue\<close>

text \<open>
  The constructor of the strict class calls the base constructor, whose call of
  \<open>this.setPriorities\<close> is dispatched to the strict override.
\<close>

definition StrictPriorityQueue_setPriorities ::
  "priority_queue \<Rightarrow> string list \<Rightarrow> (priority_queue, unit) outcome" where
  "StrictPriorityQueue_setPriorities q list =
     (if length (priorityList q) = 0
      then Returns () (PriorityQueue_setPriorities q list)
      else Throws (Error (Msg ''Updating priority list not currently supported.'')) q)"

definition StrictPriorityQueue_constructor :: "string list \<Rightarrow> (priority_queue, unit) outcome" where
  "StrictPriorityQueue_constructor list =
     StrictPriorityQueue_setPriorities
       \<lparr>priorityList = [], eventQueues = Map.empty, pq_length = 0\<rparr> list"

definition StrictPriorityQueue_add ::
  "regexp \<Rightarrow> priority_queue \<Rightarrow> event \<Rightarrow> (priority_queue, unit) outcome" where
  "StrictPriorityQueue_add rx q ev =
     (if truthy_string (name ev) then PriorityQueue_add rx q ev
      else Throws (Error (Msg ''Events must have a name.'')) q)"

subsection \<open>What a priority queue holds\<close>

text \<open>
  The events of a queue in the order \<open>next\<close> hands them out: bucket after bucket in the
  order of the priority list, a bucket that was already read counting as empty.
\<close>

definition bucket :: "(string \<rightharpoonup> event list) \<Rightarrow> string \<Rightarrow> event list" where
  "bucket m p = (case m p of None \<Rightarrow> [] | Some b \<Rightarrow> b)"

fun pending :: "string list \<Rightarrow> (string \<rightharpoonup> event list) \<Rightarrow> event list" where
  "pending [] m = []"
| "pending (p # ps) m = bucket m p @ pending ps (m(p := None))"

definition pq_pending :: "priority_queue \<Rightarrow> event list" where
  "pq_pending q = pending (priorityList q) (eventQueues q)"




text \<open>
  \<open>insert_by key x xs\<close> puts \<open>x\<close> behind the elements of a smaller or equal key and before
  those of a greater key.
\<close>

definition insert_by :: "('a \<Rightarrow> 'k::linorder) \<Rightarrow> 'a \<Rightarrow> 'a list \<Rightarrow> 'a list" where
  "insert_by key x xs =
     filter (\<lambda>y. key y \<le> key x) xs @ x # filter (\<lambda>y. \<not> key y \<le> key x) xs"

text \<open>
  The states a queue built from \<open>pl\<close> goes through, under the operations of both classes.
  The state after a call is the receiver's, whether the call returned or threw.
\<close>

fun state_of :: "('s, 'a) outcome \<Rightarrow> 's" where
  "state_of (Throws err s) = s"
| "state_of (Returns r s) = s"

inductive pq_reachable :: "regexp \<Rightarrow> string list \<Rightarrow> priority_queue \<Rightarrow> bool"
  for rx :: regexp and pl :: "string list" where
  constructed: "pq_reachable rx pl (PriorityQueue_constructor pl)"
| constructed_strict: "pq_reachable rx pl (state_of (StrictPriorityQueue_constructor pl))"
| after_add: "pq_reachable rx pl q \<Longrightarrow> pq_reachable rx pl (state_of (PriorityQueue_add rx q ev))"
| after_strict_add:
    "pq_reachable rx pl q \<Longrightarrow> pq_reachable rx pl (state_of (StrictPriorityQueue_add rx q ev))"
| after_next: "pq_reachable rx pl q \<Longrightarrow> pq_reachable rx pl (state_of (PriorityQueue_next q))"
| after_strict_setPriorities:
    "pq_reachable rx pl q \<Longrightarrow>
     pq_reachable rx pl (state_of (StrictPriorityQueue_setPriorities q list))"

section \<open>EventQueue\<close>

text \<open>
  \<open>_nextTime\<close> is \<open>undefined\<close>, a number, or the \<open>Infinity\<close> that \<open>Math.min()\<close> gives for no
  argument. \<open>_timeQueues\<close> is an object indexed by time: an association list.
\<close>

datatype next_time = Unset | Time rat | Infinity

record event_queue =
  eq_priorityList :: "string list"
  timeQueues :: "(rat \<times> priority_queue) list"
  eq_length :: nat
  currentQueue :: "priority_queue option"
  currentTime :: rat
  nextTime :: next_time

definition EventQueue_constructor :: "string list \<Rightarrow> event_queue" where
  "EventQueue_constructor list =
     \<lparr>eq_priorityList = list, timeQueues = [], eq_length = 0, currentQueue = None,
      currentTime = 0, nextTime = Unset\<rparr>"


text \<open>\<open>! this._nextTime\<close>\<close>

fun falsy_next :: "next_time \<Rightarrow> bool" where
  "falsy_next Unset = True"
| "falsy_next (Time t) = (t = 0)"
| "falsy_next Infinity = False"

text \<open>The time \<open>add\<close> schedules the event at: the \<open>if (time) ... else if (event.time) ... else\<close>
  at its head.\<close>

definition timeToUse :: "event_queue \<Rightarrow> event \<Rightarrow> rat option \<Rightarrow> rat" where
  "timeToUse q ev t =
     (if truthy_number t then the t
      else if truthy_number (time ev) then the (time ev)
      else currentTime q + 1)"

text \<open>
  \<open>add\<close>. The queue of the time slot is an object shared with \<open>_timeQueues\<close>, so what
  \<open>queue.add\<close> does to it is stored back. When \<open>queue.add\<close> throws, the assignments made
  before it stay.
\<close>

definition EventQueue_add ::
  "regexp \<Rightarrow> event_queue \<Rightarrow> event \<Rightarrow> rat option \<Rightarrow> (event_queue \<times> event, unit) outcome" where
  "EventQueue_add rx q ev t =
     (let tu = timeToUse q ev t;
          q1 = (if falsy_next (nextTime q) then q\<lparr>nextTime := Time tu\<rparr> else q);
          ev' = ev\<lparr>time := Some tu\<rparr>;
          queue = (case map_of (timeQueues q1) tu of
                     Some queue \<Rightarrow> queue
                   | None \<Rightarrow> PriorityQueue_constructor (eq_priorityList q1))
      in case PriorityQueue_add rx queue ev' of
           Throws err queue' \<Rightarrow>
             Throws err (q1\<lparr>timeQueues := AList.update tu queue' (timeQueues q1)\<rparr>, ev')
         | Returns u queue' \<Rightarrow>
             Returns () (q1\<lparr>timeQueues := AList.update tu queue' (timeQueues q1),
                             eq_length := eq_length q1 + 1\<rparr>, ev'))"

text \<open>
  The loop \<open>while (!this._currentQueue) { this._currentTime++; ... }\<close> of \<open>next\<close>, entered
  with no current queue. It ends at the first time after \<open>t\<close>, in steps of one, that has a
  queue; \<open>None\<close> when there is no such time and the loop runs forever.
\<close>

partial_function (option) advance ::
  "(rat \<times> priority_queue) list \<Rightarrow> rat \<Rightarrow> (rat \<times> priority_queue) option" where
  "advance tq t =
     (case map_of tq (t + 1) of
        Some queue \<Rightarrow> Some (t + 1, queue)
      | None \<Rightarrow> advance tq (t + 1))"

declare advance.simps [code]

text \<open>\<open>Math.min(...Object.keys(this._timeQueues).map(Number))\<close>\<close>

definition min_key :: "(rat \<times> priority_queue) list \<Rightarrow> next_time" where
  "min_key tq = (case map fst tq of [] \<Rightarrow> Infinity | k # ks \<Rightarrow> Time (fold min ks k))"

definition EventQueue_next :: "event_queue \<Rightarrow> (event_queue, event option) outcome option" where
  "EventQueue_next q =
     (if eq_length q = 0 then Some (Returns None q)
      else
        (case (case currentQueue q of
                 Some cq \<Rightarrow> Some (currentTime q, cq)
               | None \<Rightarrow> advance (timeQueues q) (currentTime q)) of
           None \<Rightarrow> None
         | Some (ct, cq) \<Rightarrow>
             Some
               (let q1 = q\<lparr>currentTime := ct, currentQueue := Some cq,
                           timeQueues := AList.delete ct (timeQueues q), nextTime := Time ct\<rparr>
                in case PriorityQueue_next cq of
                     Throws err cq' \<Rightarrow> Throws err (q1\<lparr>currentQueue := Some cq'\<rparr>)
                   | Returns evt cq' \<Rightarrow>
                       (let q2 = q1\<lparr>currentQueue := Some cq', eq_length := eq_length q1 - 1\<rparr>
                        in Returns evt
                             (if PriorityQueue_isEmpty cq'
                              then (if eq_length q2 = 0
                                    then q2\<lparr>currentQueue := None, nextTime := Unset\<rparr>
                                    else q2\<lparr>currentQueue := None,
                                            nextTime := min_key (timeQueues q2)\<rparr>)
                              else q2)))))"

subsection \<open>StrictEventQueue\<close>

definition isInteger :: "rat \<Rightarrow> bool" where
  "isInteger x = (of_int \<lfloor>x\<rfloor> = x)"

definition StrictEventQueue_constructor :: "string list \<Rightarrow> event_queue" where
  "StrictEventQueue_constructor list = EventQueue_constructor list"

definition StrictEventQueue_add ::
  "regexp \<Rightarrow> event_queue \<Rightarrow> event \<Rightarrow> rat option \<Rightarrow> (event_queue \<times> event, unit) outcome" where
  "StrictEventQueue_add rx q ev t =
     (if \<not> truthy_string (name ev) then Throws (Error (Msg ''Events must have a name.'')) (q, ev)
      else if truthy_number t \<or> truthy_number (time ev) then
        (let tu = (if truthy_number t then the t else the (time ev))
         in if \<not> isInteger tu then Throws (Error (TimeNotInteger tu)) (q, ev)
            else if \<not> tu > currentTime q then
              Throws (Error (TimeBeforeCurrent tu (currentTime q))) (q, ev)
            else EventQueue_add rx q ev t)
      else EventQueue_add rx q ev t)"

subsection \<open>The scheduling time in the words of the specification\<close>


section \<open>Objects, events and entities\<close>

text \<open>
  A JavaScript object is a bag of properties. \<open>Object.assign(target, source)\<close> copies every
  property of the source over the target's.
\<close>

type_synonym jsobj = "string \<rightharpoonup> jsval"

definition Object_assign :: "jsobj \<Rightarrow> jsobj \<Rightarrow> jsobj" where
  "Object_assign target source = target ++ source"

text \<open>
  The constructor of \<open>class Event\<close>, on the object it builds. \<open>uuid\<close> is what \<open>uuidv4()\<close>
  returns to this call.
\<close>

definition Event_constructor :: "string \<Rightarrow> string \<Rightarrow> jsobj \<Rightarrow> jsobj" where
  "Event_constructor n uuid properties =
     Object_assign (Map.empty(''name'' \<mapsto> Str n, ''guid'' \<mapsto> Str uuid, ''time'' \<mapsto> Undefined))
       properties"

text \<open>
  Entity descriptions and entities are objects of a heap, a list of property bags indexed
  by address. A handler is a function of its receiver \<open>this\<close>, its argument and the heap; it
  returns or throws, and leaves a heap. \<open>h.bind(this)\<close> fixes the receiver. The four handler
  registries of an object are kept beside its bag, so a bag holds no property of their names.
  Keys of a registry are taken not to be names of members of \<open>Object.prototype\<close>.
\<close>

type_synonym heap = "jsobj list"

type_synonym 'a handler = "nat \<Rightarrow> 'a \<Rightarrow> heap \<Rightarrow> (heap, unit) outcome"

type_synonym 'a bound_handler = "'a \<Rightarrow> heap \<Rightarrow> (heap, unit) outcome"

definition bind :: "'a handler \<Rightarrow> nat \<Rightarrow> 'a bound_handler" where
  "bind h this = h this"

record entity_ref =
  ref_name :: string
  ref_guid :: string

record entity_description =
  ed_addr :: nat
  ed_eventHandlers :: "string \<rightharpoonup> event handler list"
  ed_entityCreatedHandlers :: "string \<rightharpoonup> entity_ref handler list"
  ed_entityDestroyedHandlers :: "string \<rightharpoonup> entity_ref handler list"
  ed_entityUpdatedHandlers :: "string \<rightharpoonup> (entity_ref \<times> string list) handler list"

record entity =
  ent_addr :: nat
  ent_eventHandlers :: "string \<rightharpoonup> event bound_handler list"
  ent_entityCreatedHandlers :: "string \<rightharpoonup> entity_ref bound_handler list"
  ent_entityDestroyedHandlers :: "string \<rightharpoonup> entity_ref bound_handler list"
  ent_entityUpdatedHandlers :: "string \<rightharpoonup> (entity_ref \<times> string list) bound_handler list"

definition registry_names :: "string list" where
  "registry_names = [''_eventHandlers'', ''_entityCreatedHandlers'',
     ''_entityDestroyedHandlers'', ''_entityUpdatedHandlers'']"

text \<open>The assignments \<open>this._eventHandlers = {}\<close>, ... overwrite any property of these names.\<close>

definition set_registries :: "jsobj \<Rightarrow> jsobj" where
  "set_registries obj = (\<lambda>k. if k \<in> set registry_names then None else obj k)"

definition EntityDescription_constructor ::
  "string \<Rightarrow> string \<Rightarrow> jsobj \<Rightarrow> heap \<Rightarrow> entity_description \<times> heap" where
  "EntityDescription_constructor n uuid properties H =
     (\<lparr>ed_addr = length H, ed_eventHandlers = Map.empty, ed_entityCreatedHandlers = Map.empty,
       ed_entityDestroyedHandlers = Map.empty, ed_entityUpdatedHandlers = Map.empty\<rparr>,
      H @ [set_registries
             (Object_assign (Map.empty(''name'' \<mapsto> Str n, ''guid'' \<mapsto> Str uuid)) properties)])"

definition addToHandlerToHandlers :: "(string \<rightharpoonup> 'h list) \<Rightarrow> string \<Rightarrow> 'h \<Rightarrow> (string \<rightharpoonup> 'h list)" where
  "addToHandlerToHandlers dict n h =
     dict(n \<mapsto> (case dict n of None \<Rightarrow> [] | Some handlers \<Rightarrow> handlers) @ [h])"

definition onEvent ::
  "entity_description \<Rightarrow> string \<Rightarrow> event handler \<Rightarrow> (entity_description, unit) outcome" where
  "onEvent d eventName eventHandler =
     (if eventName = []
      then Throws (Error (Msg ''An event name must be provided for an event handler'')) d
      else Returns ()
             (d\<lparr>ed_eventHandlers := addToHandlerToHandlers (ed_eventHandlers d) eventName eventHandler\<rparr>))"

definition onEntityCreated ::
  "entity_description \<Rightarrow> string \<Rightarrow> entity_ref handler \<Rightarrow> (entity_description, unit) outcome" where
  "onEntityCreated d entityName h =
     (if entityName = []
      then Throws (Error (Msg ''An entity name must be provided for an entity created handler'')) d
      else Returns ()
             (d\<lparr>ed_entityCreatedHandlers :=
                  addToHandlerToHandlers (ed_entityCreatedHandlers d) entityName h\<rparr>))"

definition onEntityDestroyed ::
  "entity_description \<Rightarrow> string \<Rightarrow> entity_ref handler \<Rightarrow> (entity_description, unit) outcome" where
  "onEntityDestroyed d entityName h =
     (if entityName = []
      then Throws (Error (Msg ''An entity name must be provided for an entity destroyed handler'')) d
      else Returns ()
             (d\<lparr>ed_entityDestroyedHandlers :=
                  addToHandlerToHandlers (ed_entityDestroyedHandlers d) entityName h\<rparr>))"

definition onEntityUpdated ::
  "entity_description \<Rightarrow> string \<Rightarrow> (entity_ref \<times> string list) handler \<Rightarrow>
   (entity_description, unit) outcome" where
  "onEntityUpdated d entityName h =
     (if entityName = []
      then Throws (Error (Msg ''An entity name must be provided for an entity updated handler'')) d
      else Returns ()
             (d\<lparr>ed_entityUpdatedHandlers :=
                  addToHandlerToHandlers (ed_entityUpdatedHandlers d) entityName h\<rparr>))"

text \<open>\<open>_copyHandlers\<close>, for one registry: every list of handlers is copied, every handler bound
  to the new entity.\<close>

definition copyHandlers :: "(string \<rightharpoonup> 'a handler list) \<Rightarrow> nat \<Rightarrow> (string \<rightharpoonup> 'a bound_handler list)" where
  "copyHandlers registry this = (\<lambda>k. map_option (map (\<lambda>h. bind h this)) (registry k))"

text \<open>
  The constructor of \<open>class Entity\<close>: the properties of the description, then those passed,
  then a new \<open>guid\<close>, then the registries.
\<close>

definition Entity_constructor ::
  "entity_description \<Rightarrow> jsobj \<Rightarrow> string \<Rightarrow> heap \<Rightarrow> entity \<times> heap" where
  "Entity_constructor description properties uuid H =
     (let this = length H;
          obj = set_registries
                  ((Object_assign (Object_assign Map.empty (H ! ed_addr description)) properties)
                     (''guid'' \<mapsto> Str uuid))
      in (\<lparr>ent_addr = this,
           ent_eventHandlers = copyHandlers (ed_eventHandlers description) this,
           ent_entityCreatedHandlers = copyHandlers (ed_entityCreatedHandlers description) this,
           ent_entityDestroyedHandlers = copyHandlers (ed_entityDestroyedHandlers description) this,
           ent_entityUpdatedHandlers = copyHandlers (ed_entityUpdatedHandlers description) this\<rparr>,
          H @ [obj]))"







text \<open>The handler of the test of the entities: \<open>function (event) { this.prop = event.prop; }\<close>\<close>

definition copy_prop :: "event handler" where
  "copy_prop this ev H =
     Returns () (H[this := (H ! this)(''prop'' := Some (case map_of (props ev) ''prop'' of
                                                        None \<Rightarrow> Undefined | Some v \<Rightarrow> v))])"


text \<open>The description, the two entities and the event of the test
  "test handling events with properties and handlers".\<close>

definition test_description :: "entity_description \<times> heap" where
  "test_description =
     (let (d, H) = EntityDescription_constructor ''entity'' ''u0'' (Map.empty(''prop'' \<mapsto> Num 1)) []
      in (state_of (onEvent d ''event'' copy_prop), H))"




section \<open>Concrete events\<close>

definition ev_e :: event where
  "ev_e = \<lparr>name = Some ''e'', guid = ''g1'', time = None, props = []\<rparr>"

definition ev_b :: event where
  "ev_b = \<lparr>name = Some ''b'', guid = ''g2'', time = None, props = []\<rparr>"

definition ev_a :: event where
  "ev_a = \<lparr>name = Some ''a'', guid = ''g3'', time = None, props = []\<rparr>"









section \<open>Histories of the queues\<close>

text \<open>
  A history of a priority queue: the queue built from \<open>pl\<close>, then calls of \<open>add\<close> (of either
  class) and \<open>next\<close> in any order. It records the events whose \<open>add\<close> returned and the events
  \<open>next\<close> returned, in the order of the calls.
\<close>

inductive pq_history ::
  "regexp \<Rightarrow> string list \<Rightarrow> priority_queue \<Rightarrow> event list \<Rightarrow> event list \<Rightarrow> bool"
  for rx :: regexp and pl :: "string list" where
  pq_start: "pq_history rx pl (PriorityQueue_constructor pl) [] []"
| pq_add:
    "pq_history rx pl q added returned \<Longrightarrow> PriorityQueue_add rx q ev = Returns () q' \<Longrightarrow>
     pq_history rx pl q' (added @ [ev]) returned"
| pq_add_throws:
    "pq_history rx pl q added returned \<Longrightarrow> PriorityQueue_add rx q ev = Throws err q' \<Longrightarrow>
     pq_history rx pl q' added returned"
| pq_strict_add:
    "pq_history rx pl q added returned \<Longrightarrow> StrictPriorityQueue_add rx q ev = Returns () q' \<Longrightarrow>
     pq_history rx pl q' (added @ [ev]) returned"
| pq_strict_add_throws:
    "pq_history rx pl q added returned \<Longrightarrow> StrictPriorityQueue_add rx q ev = Throws err q' \<Longrightarrow>
     pq_history rx pl q' added returned"
| pq_next_event:
    "pq_history rx pl q added returned \<Longrightarrow> PriorityQueue_next q = Returns (Some ev) q' \<Longrightarrow>
     pq_history rx pl q' added (returned @ [ev])"
| pq_next_none:
    "pq_history rx pl q added returned \<Longrightarrow> PriorityQueue_next q = Returns None q' \<Longrightarrow>
     pq_history rx pl q' added returned"

text \<open>
  A history of an event queue, in the same way. \<open>ok\<close> is the condition under which an \<open>add\<close>
  is made; the event recorded is the one with its time written. An \<open>add\<close> that the strict
  class rejects is part of a history; an \<open>add\<close> during which \<open>RegExp\<close> throws is not.
\<close>

inductive eq_history ::
  "regexp \<Rightarrow> string list \<Rightarrow> (event_queue \<Rightarrow> event \<Rightarrow> rat option \<Rightarrow> bool) \<Rightarrow>
   event_queue \<Rightarrow> event list \<Rightarrow> event list \<Rightarrow> bool"
  for rx :: regexp and pl :: "string list" and ok :: "event_queue \<Rightarrow> event \<Rightarrow> rat option \<Rightarrow> bool" where
  eq_start: "eq_history rx pl ok (EventQueue_constructor pl) [] []"
| eq_add:
    "eq_history rx pl ok q added returned \<Longrightarrow> ok q ev t \<Longrightarrow>
     EventQueue_add rx q ev t = Returns () (q', ev') \<Longrightarrow>
     eq_history rx pl ok q' (added @ [ev']) returned"
| eq_strict_add_rejected:
    "eq_history rx pl ok q added returned \<Longrightarrow>
     StrictEventQueue_add rx q ev t = Throws (Error m) (q', ev') \<Longrightarrow>
     eq_history rx pl ok q' added returned"
| eq_next_event:
    "eq_history rx pl ok q added returned \<Longrightarrow>
     EventQueue_next q = Some (Returns (Some ev) q') \<Longrightarrow>
     eq_history rx pl ok q' added (returned @ [ev])"
| eq_next_none:
    "eq_history rx pl ok q added returned \<Longrightarrow>
     EventQueue_next q = Some (Returns None q') \<Longrightarrow>
     eq_history rx pl ok q' added returned"









subsection \<open>What an event queue holds\<close>




section \<open>Properties of the priority queue\<close>

lemma set_decimal: "set (decimal n) \<subseteq> set ''0123456789''"
proof (induction n rule: decimal.induct)
  case (1 n)
  have d: "digit n \<in> set ''0123456789''"
    unfolding digit_def by (rule nth_mem) simp
  show ?case
  proof (cases "n < 10")
    case True
    then show ?thesis using d by (subst decimal.simps) simp
  next
    case False
    then show ?thesis using d 1 by (subst decimal.simps) simp
  qed
qed

lemma star_in_False [simp]: "\<not> star_in list"
proof -
  have "''*'' \<noteq> decimal i" for i
  proof
    assume "''*'' = decimal i"
    then have "CHR ''*'' \<in> set (decimal i)" by (metis list.set_intros(1))
    then have "CHR ''*'' \<in> set ''0123456789''" using set_decimal by blast
    then show False by simp
  qed
  then show ?thesis by (auto simp: star_in_def)
qed

lemma foldl_buckets:
  "foldl (\<lambda>m eventName. m(eventName \<mapsto> [])) m0 ps p =
     (if p \<in> set ps then Some [] else m0 p)"
  by (induction ps arbitrary: m0) auto

lemma setPriorities_list [simp]:
  "priorityList (PriorityQueue_setPriorities q list) = list @ ['''']"
  by (simp add: PriorityQueue_setPriorities_def Let_def)

lemma setPriorities_buckets [simp]:
  "eventQueues (PriorityQueue_setPriorities q list) p =
     (if p \<in> set list \<or> p = [] then Some [] else None)"
  by (auto simp: PriorityQueue_setPriorities_def Let_def foldl_buckets)

lemma setPriorities_length [simp]:
  "pq_length (PriorityQueue_setPriorities q list) = pq_length q"
  by (simp add: PriorityQueue_setPriorities_def Let_def)


lemma pending_empty: "(\<And>p. p \<in> set ps \<Longrightarrow> bucket m p = []) \<Longrightarrow> pending ps m = []"
proof (induction ps arbitrary: m)
  case Nil
  then show ?case by simp
next
  case (Cons a ps)
  have "pending ps (m(a := None)) = []"
    by (rule Cons.IH) (use Cons.prems in \<open>auto simp: bucket_def\<close>)
  then show ?case using Cons.prems by simp
qed

lemma bucket_upd [simp]:
  "bucket (m(a := v)) p = (if p = a then (case v of None \<Rightarrow> [] | Some b \<Rightarrow> b) else bucket m p)"
  by (simp add: bucket_def)
















lemma length_insert_by [simp]: "length (insert_by key x xs) = Suc (length xs)"
  by (simp add: insert_by_def sum_length_filter_compl)


lemma contains_Nil [simp]: "contains [] n"
  by (cases n) auto


lemma strict_constructor:
  "StrictPriorityQueue_constructor pl = Returns () (PriorityQueue_constructor pl)"
  by (simp add: StrictPriorityQueue_constructor_def StrictPriorityQueue_setPriorities_def
      PriorityQueue_constructor_def)

lemma add_priorityList: "priorityList (state_of (PriorityQueue_add rx q ev)) = priorityList q"
  by (auto simp: PriorityQueue_add_def split: sum.splits option.splits)

lemma next_scan_priorityList: "priorityList (state_of (next_scan ps q)) = priorityList q"
  by (induction ps) (auto split: option.splits list.splits)

lemma next_priorityList: "priorityList (state_of (PriorityQueue_next q)) = priorityList q"
  by (simp add: PriorityQueue_next_def next_scan_priorityList)

lemma reachable_priorityList: "pq_reachable rx pl q \<Longrightarrow> priorityList q = pl @ ['''']"
proof (induction rule: pq_reachable.induct)
  case constructed
  then show ?case by (simp add: PriorityQueue_constructor_def)
next
  case constructed_strict
  then show ?case by (simp add: strict_constructor PriorityQueue_constructor_def)
next
  case (after_add q ev)
  then show ?case by (simp add: add_priorityList)
next
  case (after_strict_add q ev)
  then show ?case by (simp add: StrictPriorityQueue_add_def add_priorityList)
next
  case (after_next q)
  then show ?case by (simp add: next_priorityList)
next
  case (after_strict_setPriorities q list)
  then show ?case by (simp add: StrictPriorityQueue_setPriorities_def)
qed



text \<open>
  Claim C7. The strict constructor sets the priorities (its list is still empty); in every
  later state of the queue \<open>setPriorities\<close> of the strict class throws, whatever its argument,
  and leaves the queue as it was.
\<close>

theorem strict_setPriorities_locked:
  assumes "pq_reachable rx pl q"
  shows "StrictPriorityQueue_constructor pl = Returns () (PriorityQueue_constructor pl) \<and>
         StrictPriorityQueue_setPriorities q list =
           Throws (Error (Msg ''Updating priority list not currently supported.'')) q"
  using reachable_priorityList [OF assms]
  by (simp add: strict_constructor StrictPriorityQueue_setPriorities_def)

lemma literal_regexp_plain [simp]:
  "literal_regexp ''a'' n = Some (contains ''a'' n)"
  "literal_regexp ''b'' n = Some (contains ''b'' n)"
  "literal_regexp '''' n = Some True"
  by (simp_all add: literal_regexp_def metachars_def)


text \<open>Claim C7 on the strict queue of the empty list, after one event was added.\<close>

theorem strict_setPriorities_locked_witness:
  "pq_reachable literal_regexp []
     (state_of (StrictPriorityQueue_add literal_regexp
        (state_of (StrictPriorityQueue_constructor [])) ev_e)) \<and>
   StrictPriorityQueue_setPriorities
     (state_of (StrictPriorityQueue_add literal_regexp
        (state_of (StrictPriorityQueue_constructor [])) ev_e)) [''c'', ''d''] =
     Throws (Error (Msg ''Updating priority list not currently supported.''))
       (state_of (StrictPriorityQueue_add literal_regexp
        (state_of (StrictPriorityQueue_constructor [])) ev_e))"
proof -
  let ?q = "state_of (StrictPriorityQueue_add literal_regexp
        (state_of (StrictPriorityQueue_constructor [])) ev_e)"
  have r: "pq_reachable literal_regexp [] ?q"
    by (rule pq_reachable.after_strict_add [OF pq_reachable.constructed_strict])
  show ?thesis
    using strict_setPriorities_locked [OF r, of "[''c'', ''d'']"] r by blast
qed

section \<open>Properties of the event queue: scheduling time and validation\<close>

lemma isInteger_Ints: "isInteger x = (x \<in> \<int>)"
  unfolding isInteger_def
  by (metis Ints_of_int Ints_cases floor_of_int)

lemma isInteger_simps [simp]:
  "isInteger 0" "isInteger 1" "isInteger (- 1)" "isInteger (numeral n)" "isInteger (- numeral n)"
  "isInteger x \<Longrightarrow> isInteger (x + 1)"
  by (simp_all add: isInteger_Ints)











text \<open>
  Claim C2 asks that \<open>nextTime\<close> be the smallest occupied time after every \<open>add\<close>. \<open>add\<close> sets
  \<open>nextTime\<close> only when it is unset: after an event at time 5 and then one at time 3, both
  accepted by the strict queue, \<open>nextTime\<close> is 5 and the smallest occupied time is 3.
\<close>

theorem nextTime_not_lowered_by_add:
  "nextTime (fst (state_of (StrictEventQueue_add literal_regexp
       (fst (state_of (StrictEventQueue_add literal_regexp
          (StrictEventQueue_constructor []) ev_a (Some 5)))) ev_b (Some 3)))) = Time 5 \<and>
   min_key (timeQueues (fst (state_of (StrictEventQueue_add literal_regexp
       (fst (state_of (StrictEventQueue_add literal_regexp
          (StrictEventQueue_constructor []) ev_a (Some 5)))) ev_b (Some 3))))) = Time 3"
  by code_simp

section \<open>Properties of events and entities\<close>

lemma set_registries_apply:
  "set_registries obj k = (if k \<in> set registry_names then None else obj k)"
  by (simp add: set_registries_def)

text \<open>
  Claim C9. The three constructors assign the properties passed to them after the built-in
  fields: a property of the bag wins over \<open>name\<close>, \<open>guid\<close> and \<open>time\<close> of an event, and over \<open>name\<close>
  and \<open>guid\<close> of an entity description; where the bag has no such property the field keeps the
  value of the constructor. An entity takes \<open>name\<close> from the bag too, but its \<open>guid\<close> is the new
  one whatever the bag and the description hold, and its four registries are the bound copies
  of the description's. (An entity description, too, sets its registries after the bag.)
\<close>

theorem properties_bag_overrides_fields:
  "(\<forall>k v. properties k = Some v \<longrightarrow> Event_constructor n uuid properties k = Some v) \<and>
   (properties ''name'' = None \<longrightarrow> Event_constructor n uuid properties ''name'' = Some (Str n)) \<and>
   (properties ''guid'' = None \<longrightarrow> Event_constructor n uuid properties ''guid'' = Some (Str uuid)) \<and>
   (properties ''time'' = None \<longrightarrow> Event_constructor n uuid properties ''time'' = Some Undefined) \<and>
   (\<forall>k v. properties k = Some v \<longrightarrow> k \<notin> set registry_names \<longrightarrow>
      last (snd (EntityDescription_constructor n uuid properties H)) k = Some v) \<and>
   (properties ''name'' = None \<longrightarrow>
      last (snd (EntityDescription_constructor n uuid properties H)) ''name'' = Some (Str n)) \<and>
   (properties ''guid'' = None \<longrightarrow>
      last (snd (EntityDescription_constructor n uuid properties H)) ''guid'' = Some (Str uuid)) \<and>
   (\<forall>k v. properties k = Some v \<longrightarrow> k \<notin> set registry_names \<longrightarrow> k \<noteq> ''guid'' \<longrightarrow>
      last (snd (Entity_constructor description properties uuid H)) k = Some v) \<and>
   last (snd (Entity_constructor description properties uuid H)) ''guid'' = Some (Str uuid) \<and>
   ent_eventHandlers (fst (Entity_constructor description properties uuid H)) =
     copyHandlers (ed_eventHandlers description) (length H) \<and>
   ent_entityCreatedHandlers (fst (Entity_constructor description properties uuid H)) =
     copyHandlers (ed_entityCreatedHandlers description) (length H) \<and>
   ent_entityDestroyedHandlers (fst (Entity_constructor description properties uuid H)) =
     copyHandlers (ed_entityDestroyedHandlers description) (length H) \<and>
   ent_entityUpdatedHandlers (fst (Entity_constructor description properties uuid H)) =
     copyHandlers (ed_entityUpdatedHandlers description) (length H)"
proof -
  have guid: "''guid'' \<notin> set registry_names" "''name'' \<notin> set registry_names"
    by (simp_all add: registry_names_def)
  have 1: "Event_constructor n uuid properties k = Some v" if "properties k = Some v" for k v
    using that by (simp add: Event_constructor_def Object_assign_def map_add_Some_iff)
  have 2: "Event_constructor n uuid properties ''name'' = Some (Str n)"
    if "properties ''name'' = None"
    using that by (simp add: Event_constructor_def Object_assign_def map_add_def)
  have 3: "Event_constructor n uuid properties ''guid'' = Some (Str uuid)"
    if "properties ''guid'' = None"
    using that by (simp add: Event_constructor_def Object_assign_def map_add_def)
  have 4: "Event_constructor n uuid properties ''time'' = Some Undefined"
    if "properties ''time'' = None"
    using that by (simp add: Event_constructor_def Object_assign_def map_add_def)
  have 5: "last (snd (EntityDescription_constructor n uuid properties H)) k = Some v"
    if "properties k = Some v" "k \<notin> set registry_names" for k v
    using that
    by (simp add: EntityDescription_constructor_def Object_assign_def set_registries_apply
        map_add_Some_iff)
  have 6: "last (snd (EntityDescription_constructor n uuid properties H)) ''name'' = Some (Str n)"
    if "properties ''name'' = None"
    using that guid
    by (simp add: EntityDescription_constructor_def Object_assign_def set_registries_apply
        map_add_def)
  have 7: "last (snd (EntityDescription_constructor n uuid properties H)) ''guid'' = Some (Str uuid)"
    if "properties ''guid'' = None"
    using that guid
    by (simp add: EntityDescription_constructor_def Object_assign_def set_registries_apply
        map_add_def)
  have 8: "last (snd (Entity_constructor description properties uuid H)) k = Some v"
    if "properties k = Some v" "k \<notin> set registry_names" "k \<noteq> ''guid''" for k v
    using that
    by (simp add: Entity_constructor_def Let_def Object_assign_def set_registries_apply
        map_add_Some_iff)
  have 9: "last (snd (Entity_constructor description properties uuid H)) ''guid'' = Some (Str uuid)"
    using guid by (simp add: Entity_constructor_def Let_def set_registries_apply)
  have 10: "ent_eventHandlers (fst (Entity_constructor description properties uuid H)) =
     copyHandlers (ed_eventHandlers description) (length H)"
    "ent_entityCreatedHandlers (fst (Entity_constructor description properties uuid H)) =
     copyHandlers (ed_entityCreatedHandlers description) (length H)"
    "ent_entityDestroyedHandlers (fst (Entity_constructor description properties uuid H)) =
     copyHandlers (ed_entityDestroyedHandlers description) (length H)"
    "ent_entityUpdatedHandlers (fst (Entity_constructor description properties uuid H)) =
     copyHandlers (ed_entityUpdatedHandlers description) (length H)"
    by (simp_all add: Entity_constructor_def Let_def)
  show ?thesis using 1 2 3 4 5 6 7 8 9 10 by blast
qed

text \<open>Claim C9 on bags that hold \<open>name\<close>, \<open>time\<close> and \<open>guid\<close>.\<close>

theorem properties_bag_overrides_fields_witness:
  "Event_constructor ''ev'' ''u1'' (Map.empty(''name'' \<mapsto> Str ''x'', ''time'' \<mapsto> Num 7)) ''name''
     = Some (Str ''x'') \<and>
   Event_constructor ''ev'' ''u1'' (Map.empty(''name'' \<mapsto> Str ''x'', ''time'' \<mapsto> Num 7)) ''time''
     = Some (Num 7) \<and>
   Event_constructor ''ev'' ''u1'' (Map.empty(''name'' \<mapsto> Str ''x'', ''time'' \<mapsto> Num 7)) ''guid''
     = Some (Str ''u1'') \<and>
   last (snd (EntityDescription_constructor ''ev'' ''u1''
     (Map.empty(''name'' \<mapsto> Str ''x'', ''time'' \<mapsto> Num 7)) [])) ''name'' = Some (Str ''x'') \<and>
   last (snd (Entity_constructor (fst test_description)
     (Map.empty(''name'' \<mapsto> Str ''x'', ''guid'' \<mapsto> Str ''mine'')) ''u3'' (snd test_description))) ''name''
     = Some (Str ''x'') \<and>
   last (snd (Entity_constructor (fst test_description)
     (Map.empty(''name'' \<mapsto> Str ''x'', ''guid'' \<mapsto> Str ''mine'')) ''u3'' (snd test_description))) ''guid''
     = Some (Str ''u3'')"
proof -
  let ?P = "Map.empty(''name'' \<mapsto> Str ''x'', ''time'' \<mapsto> Num 7)"
  let ?P' = "Map.empty(''name'' \<mapsto> Str ''x'', ''guid'' \<mapsto> Str ''mine'')"
  have p: "?P ''name'' = Some (Str ''x'')" "?P ''time'' = Some (Num 7)" "?P ''guid'' = None"
    "?P' ''name'' = Some (Str ''x'')" "''name'' \<notin> set registry_names" "''name'' \<noteq> ''guid''"
    by (simp_all add: registry_names_def)
  note T1 = properties_bag_overrides_fields [of ?P "''ev''" "''u1''" "[]" "fst test_description"]
  note T2 = properties_bag_overrides_fields [of ?P' "''ev''" "''u3''" "snd test_description"
        "fst test_description"]
  have 1: "Event_constructor ''ev'' ''u1'' ?P ''name'' = Some (Str ''x'')"
    using T1 p(1) by (simp only: simp_thms)
  have 2: "Event_constructor ''ev'' ''u1'' ?P ''time'' = Some (Num 7)"
    using T1 p(2) by (simp only: simp_thms)
  have 3: "Event_constructor ''ev'' ''u1'' ?P ''guid'' = Some (Str ''u1'')"
    using T1 p(3) by (simp only: simp_thms)
  have 4: "last (snd (EntityDescription_constructor ''ev'' ''u1'' ?P [])) ''name'' = Some (Str ''x'')"
    using T1 p(1,5) by (simp only: simp_thms)
  have 5: "last (snd (Entity_constructor (fst test_description) ?P' ''u3'' (snd test_description)))
      ''name'' = Some (Str ''x'')"
    using T2 p(4,5,6) by (simp only: simp_thms)
  have 6: "last (snd (Entity_constructor (fst test_description) ?P' ''u3'' (snd test_description)))
      ''guid'' = Some (Str ''u3'')"
    using T2 by (simp only: simp_thms)
  show ?thesis using 1 2 3 4 5 6 by (simp only: simp_thms)
qed








section \<open>Runs of the event queue\<close>

subsection \<open>Insertion and stable sorting\<close>

lemma mset_insert_by [simp]: "mset (insert_by key x xs) = add_mset x (mset xs)"
proof -
  have "mset (filter (\<lambda>y. key y \<le> key x) xs) + mset (filter (\<lambda>y. \<not> key y \<le> key x) xs) = mset xs"
    by (induction xs) auto
  then show ?thesis unfolding insert_by_def by (simp add: add.commute add.left_commute)
qed

lemma set_insert_by [simp]: "set (insert_by key x xs) = insert x (set xs)"
  by (auto simp: insert_by_def)






subsection \<open>The loop of next\<close>



subsection \<open>What add and next do to an event queue\<close>

lemma constructor_pending [simp]: "pq_pending (PriorityQueue_constructor pl) = []"
  by (simp add: pq_pending_def PriorityQueue_constructor_def pending_empty bucket_def)
















subsection \<open>The queue as the ordered list of its events\<close>
































end
